theory Spec2Isabelle
  imports Main "HOL-Library.Multiset" "HOL-Library.List_Lexorder" "HOL-Library.Product_Lexorder"
begin

section \<open>Python values used by the pipeline\<close>

text \<open>
  A Python \<open>str\<close> is a sequence of Unicode code points; it is modelled as a list of
  natural numbers, so that the em dash of the event header (U+2014) and the Unicode
  white space that \<open>str.strip\<close> and the pattern \<open>\s\<close> accept are single characters,
  as they are in the source. \<open>asc\<close> reads an ASCII literal.
\<close>

type_synonym pystr = "nat list"

definition asc :: "string \<Rightarrow> pystr" where
  "asc s = map of_char s"

text \<open>
  Exceptions are values; the text carried is the (ASCII rendering of the) message.
  \<open>RemoteError\<close> stands for whatever the HTTP or completion client raises.
\<close>

datatype error = ValueError string | OverflowError string | RuntimeError string | RemoteError pystr

text \<open>Truthiness of an optional string or integer argument (\<open>if start:\<close>, \<open>if weeks:\<close>).\<close>

fun truthy_str :: "pystr option \<Rightarrow> bool" where
  "truthy_str None = False"
| "truthy_str (Some s) = (s \<noteq> [])"

fun truthy_int :: "int option \<Rightarrow> bool" where
  "truthy_int None = False"
| "truthy_int (Some n) = (n \<noteq> 0)"

section \<open>String operations\<close>

text \<open>
  White space as \<open>str.strip()\<close>, \<open>str.isspace()\<close> and the pattern \<open>\s\<close> see it:
  TAB to CR, FS to US, space, NEL, NBSP, and the Unicode space separators.
\<close>

definition is_space :: "nat \<Rightarrow> bool" where
  "is_space c =
     ((9 \<le> c \<and> c \<le> 13) \<or> (28 \<le> c \<and> c \<le> 32) \<or> c = 133 \<or> c = 160 \<or> c = 5760
      \<or> (8192 \<le> c \<and> c \<le> 8202) \<or> c = 8232 \<or> c = 8233 \<or> c = 8239 \<or> c = 8287
      \<or> c = 12288)"

definition py_lstrip :: "pystr \<Rightarrow> pystr" where
  "py_lstrip s = dropWhile is_space s"

definition py_rstrip :: "pystr \<Rightarrow> pystr" where
  "py_rstrip s = rev (dropWhile is_space (rev s))"

definition py_strip :: "pystr \<Rightarrow> pystr" where
  "py_strip s = py_lstrip (py_rstrip s)"

text \<open>\<open>s.strip(ch)\<close> for a single character \<open>ch\<close>.\<close>

definition strip_char :: "nat \<Rightarrow> pystr \<Rightarrow> pystr" where
  "strip_char ch s = dropWhile (\<lambda>c. c = ch) (rev (dropWhile (\<lambda>c. c = ch) (rev s)))"

definition startswith :: "pystr \<Rightarrow> pystr \<Rightarrow> bool" where
  "startswith s p = (take (length p) s = p)"

definition endswith :: "pystr \<Rightarrow> pystr \<Rightarrow> bool" where
  "endswith s p = (length p \<le> length s \<and> drop (length s - length p) s = p)"

text \<open>\<open>needle in text\<close>.\<close>

fun contains :: "pystr \<Rightarrow> pystr \<Rightarrow> bool" where
  "contains needle [] = (needle = [])"
| "contains needle (c # cs) = (startswith (c # cs) needle \<or> contains needle cs)"

text \<open>
  \<open>str.lower()\<close> on the ASCII letters; the case tables of the other scripts are not
  part of this development, and their code points are left as they are.
\<close>

definition lower_cp :: "nat \<Rightarrow> nat" where
  "lower_cp c = (if 65 \<le> c \<and> c \<le> 90 then c + 32 else c)"

definition py_lower :: "pystr \<Rightarrow> pystr" where
  "py_lower s = map lower_cp s"

text \<open>\<open>s.replace(" ", "_")\<close>.\<close>

definition spaces_to_underscores :: "pystr \<Rightarrow> pystr" where
  "spaces_to_underscores s = map (\<lambda>c. if c = 32 then 95 else c) s"



text \<open>\<open>sep.join(parts)\<close>.\<close>

fun join :: "pystr \<Rightarrow> pystr list \<Rightarrow> pystr" where
  "join sep [] = []"
| "join sep [p] = p"
| "join sep (p # q # ps) = p @ sep @ join sep (q # ps)"



text \<open>\<open>xs.index(x)\<close>, with \<open>None\<close> for the \<open>ValueError\<close> of a missing element.\<close>

fun index_of :: "'a list \<Rightarrow> 'a \<Rightarrow> nat option" where
  "index_of [] x = None"
| "index_of (y # ys) x =
     (if y = x then Some 0 else (case index_of ys x of None \<Rightarrow> None | Some i \<Rightarrow> Some (Suc i)))"

section \<open>\<open>datetime.date\<close> and \<open>datetime.timedelta\<close>\<close>

text \<open>
  A \<open>date\<close> is represented by its proleptic Gregorian ordinal (\<open>date.toordinal()\<close>):
  1 is 0001-01-01 and \<open>date.max\<close> = 9999-12-31 is 3652059. Arithmetic that leaves this
  range raises \<open>OverflowError\<close>, and so does a \<open>timedelta\<close> of more than 999999999 days.
\<close>

type_synonym date = int

definition is_leap :: "int \<Rightarrow> bool" where
  "is_leap y = (y mod 4 = 0 \<and> (y mod 100 \<noteq> 0 \<or> y mod 400 = 0))"

definition days_before_year :: "int \<Rightarrow> int" where
  "days_before_year y = (y - 1) * 365 + (y - 1) div 4 - (y - 1) div 100 + (y - 1) div 400"

definition days_in_month :: "int \<Rightarrow> int \<Rightarrow> int" where
  "days_in_month y m =
     (if m = 2 then (if is_leap y then 29 else 28)
      else if m = 4 \<or> m = 6 \<or> m = 9 \<or> m = 11 then 30 else 31)"

definition days_before_month :: "int \<Rightarrow> int \<Rightarrow> int" where
  "days_before_month y m =
     (\<Sum>k \<leftarrow> [1 ..< nat m]. days_in_month y (int k))"

definition ymd2ord :: "int \<Rightarrow> int \<Rightarrow> int \<Rightarrow> date" where
  "ymd2ord y m d = days_before_year y + days_before_month y m + d"

definition date_min :: date where
  "date_min = 1"

definition date_max :: date where
  "date_max = 3652059"

definition is_date :: "int \<Rightarrow> bool" where
  "is_date d = (date_min \<le> d \<and> d \<le> date_max)"

text \<open>The constructor \<open>date(y, m, d)\<close>.\<close>

definition date_new :: "int \<Rightarrow> int \<Rightarrow> int \<Rightarrow> error + date" where
  "date_new y m d =
     (if 1 \<le> y \<and> y \<le> 9999 \<and> 1 \<le> m \<and> m \<le> 12 \<and> 1 \<le> d \<and> d \<le> days_in_month y m
      then Inr (ymd2ord y m d)
      else Inl (ValueError ''date value out of range''))"

text \<open>\<open>date.weekday()\<close>: Monday is 0, Saturday is 5.\<close>

definition weekday :: "date \<Rightarrow> int" where
  "weekday d = (d + 6) mod 7"

definition timedelta :: "int \<Rightarrow> error + int" where
  "timedelta days =
     (if - 999999999 \<le> days \<and> days \<le> 999999999 then Inr days
      else Inl (OverflowError ''days out of range for timedelta''))"

definition date_add :: "date \<Rightarrow> int \<Rightarrow> error + date" where
  "date_add d days =
     (if is_date (d + days) then Inr (d + days)
      else Inl (OverflowError ''date value out of range''))"

text \<open>\<open>d + timedelta(days=n)\<close>: the \<open>timedelta\<close> is built first, then added.\<close>

definition date_plus_days :: "date \<Rightarrow> int \<Rightarrow> error + date" where
  "date_plus_days d n =
     (case timedelta n of Inl e \<Rightarrow> Inl e | Inr td \<Rightarrow> date_add d td)"

text \<open>
  \<open>date.fromisoformat\<close>, for the calendar form \<open>YYYY-MM-DD\<close> that every Python
  version accepts: ten characters, ASCII digits, two hyphens, a valid calendar date.
\<close>

definition is_ascii_digit :: "nat \<Rightarrow> bool" where
  "is_ascii_digit c = (48 \<le> c \<and> c \<le> 57)"

definition digits_value :: "pystr \<Rightarrow> int" where
  "digits_value ds = foldl (\<lambda>acc c. 10 * acc + (int c - 48)) 0 ds"

definition date_fromisoformat :: "pystr \<Rightarrow> error + date" where
  "date_fromisoformat s =
     (if length s = 10 \<and> s ! 4 = 45 \<and> s ! 7 = 45
         \<and> list_all is_ascii_digit (take 4 s)
         \<and> list_all is_ascii_digit (take 2 (drop 5 s))
         \<and> list_all is_ascii_digit (drop 8 s)
      then
        (case date_new (digits_value (take 4 s)) (digits_value (take 2 (drop 5 s)))
                (digits_value (drop 8 s)) of
           Inl e \<Rightarrow> Inl e
         | Inr d \<Rightarrow> Inr d)
      else Inl (ValueError ''Invalid isoformat string''))"

section \<open>The window resolver (\<open>step2_helper_v4.py\<close>)\<close>

definition INAUGURATION_DAY :: date where
  "INAUGURATION_DAY = ymd2ord 2025 1 20"

definition FIRST_FRIDAY :: date where
  "FIRST_FRIDAY = ymd2ord 2025 1 24"

definition FIRST_SATURDAY :: date where
  "FIRST_SATURDAY = ymd2ord 2025 1 25"

text \<open>
  \<open>resolve_date_window(*, start=None, end=None, weeks=None, week=None)\<close>. The branches
  and the order of the checks are those of the source; every \<open>raise\<close>, and every
  exception of the date arithmetic, is an \<open>Inl\<close>.
\<close>

definition week_base :: "int \<Rightarrow> error + (date \<times> date)" where
  "week_base w =
     (if w = 1 then Inr (INAUGURATION_DAY, FIRST_FRIDAY)
      else
        (case date_plus_days FIRST_SATURDAY ((w - 2) * 7) of
           Inl e \<Rightarrow> Inl e
         | Inr start_d \<Rightarrow>
             (case date_plus_days start_d 6 of
                Inl e \<Rightarrow> Inl e
              | Inr end_d \<Rightarrow> Inr (start_d, end_d))))"

definition resolve_date_window ::
  "pystr option \<Rightarrow> pystr option \<Rightarrow> int option \<Rightarrow> int option \<Rightarrow> error + (date \<times> date)"
where
  "resolve_date_window start end' weeks week =
     (if truthy_str start then
        (case date_fromisoformat (the start) of
           Inl e \<Rightarrow> Inl e
         | Inr start_d \<Rightarrow>
             (if truthy_str end' then
                (case date_fromisoformat (the end') of
                   Inl e \<Rightarrow> Inl e
                 | Inr end_d \<Rightarrow> Inr (start_d, end_d))
              else if truthy_int weeks then
                (if the weeks < 1 then Inl (ValueError ''--weeks must be >= 1'')
                 else
                   (case date_plus_days start_d (7 * the weeks - 1) of
                      Inl e \<Rightarrow> Inl e
                    | Inr end_d \<Rightarrow> Inr (start_d, end_d)))
              else Inl (ValueError ''Must specify either --end or --weeks with --start'')))
      else if truthy_int week then
        (if the week < 1 then Inl (ValueError ''--week must be >= 1'')
         else
           (case week_base (the week) of
              Inl e \<Rightarrow> Inl e
            | Inr (start_d, end_d) \<Rightarrow>
                (if truthy_int weeks \<and> the weeks > 1 then
                   (case date_plus_days end_d (7 * (the weeks - 1)) of
                      Inl e \<Rightarrow> Inl e
                    | Inr end_d2 \<Rightarrow> Inr (start_d, end_d2))
                 else Inr (start_d, end_d))))
      else Inl (ValueError
        ''Must specify either (--start and --end|--weeks) or (--week [--weeks])''))"

section \<open>The writer's week calendar (\<open>step2_writeweekevents_v4.py\<close>)\<close>

definition ANCHOR_W1_START :: date where
  "ANCHOR_W1_START = ymd2ord 2025 1 20"

definition ANCHOR_W1_END :: date where
  "ANCHOR_W1_END = ymd2ord 2025 1 24"

definition ANCHOR_W2_START :: date where
  "ANCHOR_W2_START = ymd2ord 2025 1 25"

text \<open>
  \<open>dc_week_for(d)\<close>: \<open>None\<close> before the first week, otherwise the week number with its
  bounds. \<open>//\<close> is floor division, which is \<open>div\<close> on \<open>int\<close>.
\<close>

definition dc_week_for :: "date \<Rightarrow> error + (int \<times> date \<times> date) option" where
  "dc_week_for d =
     (if d < ANCHOR_W1_START then Inr None
      else if d \<le> ANCHOR_W1_END then Inr (Some (1, ANCHOR_W1_START, ANCHOR_W1_END))
      else
        (let delta_days = d - ANCHOR_W2_START;
             week_offset = delta_days div 7;
             week_num = 2 + week_offset
         in case date_plus_days ANCHOR_W2_START (7 * week_offset) of
              Inl e \<Rightarrow> Inl e
            | Inr start \<Rightarrow>
                (case date_plus_days start 6 of
                   Inl e \<Rightarrow> Inl e
                 | Inr end' \<Rightarrow> Inr (Some (week_num, start, end')))))"

section \<open>The master merge (\<open>step2_writeweekevents_v4.py\<close>)\<close>



text \<open>
  The fields of an \<open>EventRow\<close> carry the prefix \<open>ev_\<close>.
\<close>








section \<open>Window filter and deduplication (\<open>step2_getdemocracydocket_v4.py\<close>)\<close>


















section \<open>Matching a pattern at the start of lines\<close>

text \<open>
  \<open>re.finditer\<close> for a pattern that starts with \<open>^\<close> under \<open>re.M\<close>. The matcher
  \<open>m\<close> is tried at the start of the text and after every newline; it returns the length
  of the match and what it captures. The search resumes where a match ended (\<open>skip\<close>
  counts the characters of the match still to pass), so matches do not overlap. The
  result lists the start position and the captures of every match.
\<close>

fun finditer_bol ::
  "(pystr \<Rightarrow> (nat \<times> 'g) option) \<Rightarrow> nat \<Rightarrow> nat \<Rightarrow> bool \<Rightarrow> pystr \<Rightarrow> (nat \<times> 'g) list"
where
  "finditer_bol m pos skip bol [] = []"
| "finditer_bol m pos skip bol (c # cs) =
     (if 0 < skip then finditer_bol m (Suc pos) (skip - 1) (c = 10) cs
      else if bol then
        (case m (c # cs) of
           Some (len, g) \<Rightarrow> (pos, g) # finditer_bol m (Suc pos) (len - 1) (c = 10) cs
         | None \<Rightarrow> finditer_bol m (Suc pos) 0 (c = 10) cs)
      else finditer_bol m (Suc pos) 0 (c = 10) cs)"

definition finditer_lines :: "(pystr \<Rightarrow> (nat \<times> 'g) option) \<Rightarrow> pystr \<Rightarrow> (nat \<times> 'g) list" where
  "finditer_lines m text = finditer_bol m 0 0 True text"

text \<open>
  The tail \<open>\s*(.+)$\<close> (for \<open>least = 0\<close>) or \<open>\s+(.+)$\<close> (for \<open>least = 1\<close>) of a
  pattern: the length matched and the group. \<open>\s\<close> is greedy and takes the whole run
  of white space, newlines included; \<open>.\<close> takes no newline and \<open>$\<close> holds at the end of
  a line. When the run is followed by a character, the group is the rest of that line.
  When the run reaches the end of the text, the matcher gives white space back: the group
  is the last character of the run that is not a newline, provided \<open>least\<close> characters
  remain before it.
\<close>

definition match_ws_rest :: "nat \<Rightarrow> pystr \<Rightarrow> (nat \<times> pystr) option" where
  "match_ws_rest least s =
     (let w = takeWhile is_space s; r = dropWhile is_space s
      in if r \<noteq> [] then
           (if least \<le> length w
            then Some (length w + length (takeWhile (\<lambda>c. c \<noteq> 10) r), takeWhile (\<lambda>c. c \<noteq> 10) r)
            else None)
         else
           (let w' = rev (dropWhile (\<lambda>c. c = 10) (rev w))
            in if least < length w' then Some (length w', [last w']) else None))"

text \<open>The pattern \<open>^LABEL\s*.+$\<close> for a literal label.\<close>

definition match_label_line :: "pystr \<Rightarrow> pystr \<Rightarrow> (nat \<times> unit) option" where
  "match_label_line label s =
     (if startswith s label then
        (case match_ws_rest 0 (drop (length label) s) of
           Some (n, g) \<Rightarrow> Some (length label + n, ())
         | None \<Rightarrow> None)
      else None)"

text \<open>\<open>len(re.findall(r"^LABEL\s*.+$", text, re.M))\<close>.\<close>

definition count_label_lines :: "pystr \<Rightarrow> pystr \<Rightarrow> nat" where
  "count_label_lines label text = length (finditer_lines (match_label_line label) text)"

text \<open>
  The date \<open>\d{4}-\d{2}-\d{2}\<close> at the head of a string (ASCII digits): the date and
  what follows it.
\<close>

definition match_date10 :: "pystr \<Rightarrow> (pystr \<times> pystr) option" where
  "match_date10 s =
     (if 10 \<le> length s \<and> s ! 4 = 45 \<and> s ! 7 = 45
         \<and> list_all is_ascii_digit (take 4 s)
         \<and> list_all is_ascii_digit (take 2 (drop 5 s))
         \<and> list_all is_ascii_digit (take 2 (drop 8 s))
      then Some (take 10 s, drop 10 s) else None)"

text \<open>
  \<open>(\d{4}-\d{2}-\d{2})\s+[U+2014]\s+(.+)$\<close> with the em dash, written [U+2014] here: the length matched,
  the date and the title group.
\<close>

definition EM_DASH :: nat where
  "EM_DASH = 8212"

definition match_dated_title :: "pystr \<Rightarrow> (nat \<times> pystr \<times> pystr) option" where
  "match_dated_title s =
     (case match_date10 s of
        None \<Rightarrow> None
      | Some (d, s1) \<Rightarrow>
          (let w1 = takeWhile is_space s1; s2 = dropWhile is_space s1
           in if w1 \<noteq> [] \<and> s2 \<noteq> [] \<and> hd s2 = EM_DASH then
                (case match_ws_rest 1 (tl s2) of
                   Some (n, g) \<Rightarrow> Some (10 + length w1 + 1 + n, d, g)
                 | None \<Rightarrow> None)
              else None))"

section \<open>The extraction orchestrator (\<open>step2_extractor_v4.py\<close>)\<close>

text \<open>\<open>_EVENT_TITLE_RE\<close>: \<open>^\s*\d{4}-\d{2}-\d{2}\s+[U+2014]\s+.+$\<close>.\<close>

definition match_event_title :: "pystr \<Rightarrow> (nat \<times> unit) option" where
  "match_event_title s =
     (case match_dated_title (dropWhile is_space s) of
        Some (n, d, g) \<Rightarrow> Some (length (takeWhile is_space s) + n, ())
      | None \<Rightarrow> None)"

text \<open>\<open>re.search(r"Total events found:\s*\[\d+\]", text)\<close>.\<close>

definition match_total :: "pystr \<Rightarrow> bool" where
  "match_total s =
     (startswith s (asc ''Total events found:'') \<and>
      (let r = dropWhile is_space (drop 19 s)
       in r \<noteq> [] \<and> hd r = 91 \<and> takeWhile is_ascii_digit (tl r) \<noteq> []
          \<and> dropWhile is_ascii_digit (tl r) \<noteq> [] \<and> hd (dropWhile is_ascii_digit (tl r)) = 93))"

fun search_total :: "pystr \<Rightarrow> bool" where
  "search_total [] = False"
| "search_total (c # cs) = (match_total (c # cs) \<or> search_total cs)"

record compliance =
  has_footer_end_of_log :: bool
  has_total_events :: bool
  count_category_lines :: nat
  count_why_lines :: nat
  count_attacks_lines :: nat
  detected_event_blocks :: nat

definition preparse_compliance_scan :: "pystr \<Rightarrow> compliance" where
  "preparse_compliance_scan text =
     (if text = [] then
        \<lparr>has_footer_end_of_log = False, has_total_events = False, count_category_lines = 0,
         count_why_lines = 0, count_attacks_lines = 0, detected_event_blocks = 0\<rparr>
      else
        \<lparr>has_footer_end_of_log = contains (asc ''[END OF LOG]'') text,
         has_total_events = search_total text,
         count_category_lines = count_label_lines (asc ''Category:'') text,
         count_why_lines = count_label_lines (asc ''Why Relevant:'') text,
         count_attacks_lines = count_label_lines (asc ''Attacks:'') text,
         detected_event_blocks = length (finditer_lines match_event_title text)\<rparr>)"

definition needs_schema_retry :: "pystr \<Rightarrow> bool" where
  "needs_schema_retry out_text =
     (if out_text = [] \<or> py_strip out_text = [] then True
      else
        (let comp = preparse_compliance_scan out_text
         in if \<not> has_footer_end_of_log comp then True
            else if count_category_lines comp = 0 then True
            else if count_why_lines comp = 0 then True
            else if count_attacks_lines comp = 0 then True
            else False))"















text \<open>Two replies for the examples below: a complete log, and the same log cut before its footer.\<close>

definition reply_body :: pystr where
  "reply_body =
     asc ''[BEGIN LOG]'' @ [10]
     @ asc ''2025-01-21 '' @ [EM_DASH] @ asc '' Court blocks order'' @ [10]
     @ asc ''Summary: A federal judge blocked the order.'' @ [10]
     @ asc ''Source: https://example.org/a'' @ [10]
     @ asc ''Category: Judicial Developments'' @ [10]
     @ asc ''Why Relevant: Courts check executive power.'' @ [10]
     @ asc ''Attacks: [courts, rule_of_law]''"

definition reply_ok :: pystr where
  "reply_ok = reply_body @ [10] @ asc ''Total events found: [1]'' @ [10] @ asc ''[END OF LOG]''"

definition reply_cut :: pystr where
  "reply_cut = reply_body"






section \<open>A builder's loop over its items (\<open>step2_buildnoah_v4.py\<close>)\<close>



section \<open>The canonical event parser (\<open>step2_builder_helper_v4.py\<close>)\<close>

text \<open>
  \<open>str.splitlines()\<close>: the text is cut at every line boundary (LF, VT, FF, CR, CR LF,
  FS, GS, RS, NEL, LS, PS), the boundaries are dropped, and a boundary at the very end
  opens no further line.
\<close>

definition is_linebreak :: "nat \<Rightarrow> bool" where
  "is_linebreak c =
     ((10 \<le> c \<and> c \<le> 13) \<or> (28 \<le> c \<and> c \<le> 30) \<or> c = 133 \<or> c = 8232 \<or> c = 8233)"

function splitlines :: "pystr \<Rightarrow> pystr list" where
  "splitlines s =
     (if s = [] then []
      else
        (case dropWhile (\<lambda>c. \<not> is_linebreak c) s of
           [] \<Rightarrow> [s]
         | c # r \<Rightarrow>
             takeWhile (\<lambda>c. \<not> is_linebreak c) s
             # splitlines (if c = 13 \<and> r \<noteq> [] \<and> hd r = 10 then tl r else r)))"
  by pat_completeness auto
termination
proof (relation "measure length")
  show "wf (measure length)" by simp
next
  fix s :: pystr and c r
  assume "s \<noteq> []" and d: "dropWhile (\<lambda>c. \<not> is_linebreak c) s = c # r"
  have "length (c # r) \<le> length s"
    using length_dropWhile_le [of "\<lambda>c. \<not> is_linebreak c" s] d by simp
  moreover have "length (if c = 13 \<and> r \<noteq> [] \<and> hd r = 10 then tl r else r) \<le> length r"
    by simp
  ultimately show "(if c = 13 \<and> r \<noteq> [] \<and> hd r = 10 then tl r else r, s) \<in> measure length"
    by simp
qed

text \<open>
  \<open>_HEADER_RE\<close>: \<open>^(?:===\s*)?(\d{4}-\d{2}-\d{2})\s+[U+2014]\s+(.+)$\<close> under \<open>re.M\<close>.
  The optional marker is tried first, then the pattern without it.
\<close>

definition match_header :: "pystr \<Rightarrow> (nat \<times> pystr \<times> pystr) option" where
  "match_header s =
     (case (if startswith s (asc ''==='')
            then match_dated_title (dropWhile is_space (drop 3 s)) else None) of
        Some (n, d, g) \<Rightarrow> Some (3 + length (takeWhile is_space (drop 3 s)) + n, d, g)
      | None \<Rightarrow> match_dated_title s)"

text \<open>
  A character of a pattern compiled with \<open>re.IGNORECASE\<close>, for a lower-case ASCII
  letter: the letter, its capital, and for \<open>k\<close> and \<open>s\<close> the Kelvin sign and the long s.
\<close>

definition ci_char :: "nat \<Rightarrow> nat \<Rightarrow> bool" where
  "ci_char lit c = (c = lit \<or> c + 32 = lit \<or> (lit = 107 \<and> c = 8490) \<or> (lit = 115 \<and> c = 383))"

fun ci_prefix :: "pystr \<Rightarrow> pystr \<Rightarrow> bool" where
  "ci_prefix [] s = True"
| "ci_prefix (l # ls) [] = False"
| "ci_prefix (l # ls) (c # cs) = (ci_char l c \<and> ci_prefix ls cs)"

text \<open>
  \<open>_ATK_RE.match(ln)\<close>: \<open>^"?attacks"?\s*:\s*(.+)$\<close>, ignoring case, without \<open>re.M\<close>:
  the group, when the line matches. \<open>$\<close> holds at the end of the string and before a
  final newline.
\<close>

definition match_atk :: "pystr \<Rightarrow> pystr option" where
  "match_atk ln =
     (let s1 = (if ln \<noteq> [] \<and> hd ln = 34 then tl ln else ln)
      in if ci_prefix (asc ''attacks'') s1 then
           (let s2 = drop 7 s1;
                s3 = (if s2 \<noteq> [] \<and> hd s2 = 34 then tl s2 else s2);
                s4 = dropWhile is_space s3
            in if s4 \<noteq> [] \<and> hd s4 = 58 then
                 (case match_ws_rest 0 (tl s4) of
                    Some (n, g) \<Rightarrow>
                      (if drop n (tl s4) = [] \<or> drop n (tl s4) = [10] then Some g else None)
                  | None \<Rightarrow> None)
               else None)
         else None)"

text \<open>\<open>re.search(r"(https?://\S+)", s)\<close>: the first URL token.\<close>

definition match_url :: "pystr \<Rightarrow> pystr option" where
  "match_url s =
     (if startswith s (asc ''https://'') \<and> takeWhile (\<lambda>c. \<not> is_space c) (drop 8 s) \<noteq> []
      then Some (asc ''https://'' @ takeWhile (\<lambda>c. \<not> is_space c) (drop 8 s))
      else if startswith s (asc ''http://'') \<and> takeWhile (\<lambda>c. \<not> is_space c) (drop 7 s) \<noteq> []
      then Some (asc ''http://'' @ takeWhile (\<lambda>c. \<not> is_space c) (drop 7 s))
      else None)"

fun search_url :: "pystr \<Rightarrow> pystr option" where
  "search_url [] = None"
| "search_url (c # cs) =
     (case match_url (c # cs) of Some u \<Rightarrow> Some u | None \<Rightarrow> search_url cs)"

text \<open>\<open>re.split(r"[;,]", s)\<close>.\<close>

fun split_list :: "pystr \<Rightarrow> pystr list" where
  "split_list [] = [[]]"
| "split_list (c # cs) =
     (if c = 59 \<or> c = 44 then [] # split_list cs
      else (case split_list cs of [] \<Rightarrow> [[c]] | p # ps \<Rightarrow> (c # p) # ps))"

text \<open>The handle of one part of the attacks value, if any is left after trimming.\<close>

definition attack_handle :: "pystr \<Rightarrow> pystr list" where
  "attack_handle part' =
     (let h = strip_char 39 (strip_char 34 (py_strip part'))
      in if h \<noteq> [] then [spaces_to_underscores (py_lower h)] else [])"

definition attack_handles :: "pystr \<Rightarrow> pystr list" where
  "attack_handles attacks_line =
     (let cleaned0 = py_strip attacks_line;
          cleaned = (if startswith cleaned0 [91] \<and> endswith cleaned0 [93]
                     then py_strip (take (length cleaned0 - 2) (drop 1 cleaned0))
                     else cleaned0)
      in concat (map attack_handle (split_list cleaned)))"

text \<open>The event dictionary the parser emits; its keys carry the prefix \<open>pe_\<close>.\<close>

record parsed_event =
  pe_date :: pystr
  pe_title :: pystr
  pe_url :: pystr
  pe_summary :: pystr
  pe_category :: pystr
  pe_why_relevant :: pystr
  pe_attacks :: "pystr list"

text \<open>The variables the loop over the labeled lines assigns.\<close>

record fields =
  f_summary :: pystr
  f_category :: pystr
  f_why :: pystr
  f_alt_source_line :: pystr
  f_attacks_line :: pystr

definition fields0 :: fields where
  "fields0 = \<lparr>f_summary = [], f_category = [], f_why = [], f_alt_source_line = [],
              f_attacks_line = []\<rparr>"

definition field_step :: "fields \<Rightarrow> pystr \<Rightarrow> fields" where
  "field_step fs ln =
     (if startswith ln (asc ''Summary:'') then fs\<lparr>f_summary := py_strip (drop 8 ln)\<rparr>
      else if startswith ln (asc ''Category:'') then fs\<lparr>f_category := py_strip (drop 9 ln)\<rparr>
      else if startswith ln (asc ''Why Relevant:'') then fs\<lparr>f_why := py_strip (drop 13 ln)\<rparr>
      else if startswith ln (asc ''Source:'')
        then fs\<lparr>f_alt_source_line := py_strip (drop 7 ln)\<rparr>
      else (case match_atk ln of
              Some g \<Rightarrow> fs\<lparr>f_attacks_line := py_strip g\<rparr>
            | None \<Rightarrow> fs))"

text \<open>The body of the loop over the headers, for one block and the groups of its header.\<close>

definition parse_block :: "pystr \<Rightarrow> pystr \<Rightarrow> pystr \<times> pystr \<Rightarrow> parsed_event list" where
  "parse_block block article_url groups =
     (let lines = map py_rstrip (filter (\<lambda>ln. py_strip ln \<noteq> []) (splitlines block))
      in if lines = [] then []
         else
           (let date_iso = py_strip (fst groups);
                title = py_strip (snd groups);
                direct = (1 < length lines
                          \<and> (startswith (lines ! 1) (asc ''http://'')
                             \<or> startswith (lines ! 1) (asc ''https://'')));
                url0 = (if direct then py_strip (lines ! 1) else []);
                i = (if direct then 2 else 1);
                fs = foldl field_step fields0 (drop i lines);
                url1 = (if url0 = [] \<and> f_alt_source_line fs \<noteq> []
                        then (case search_url (f_alt_source_line fs) of
                                Some u \<Rightarrow> u
                              | None \<Rightarrow> url0)
                        else url0);
                attacks_list = (if f_attacks_line fs \<noteq> []
                                then attack_handles (f_attacks_line fs) else [])
            in [\<lparr>pe_date = date_iso, pe_title = title,
                 pe_url = (if url1 \<noteq> [] then url1 else article_url),
                 pe_summary = f_summary fs, pe_category = f_category fs,
                 pe_why_relevant = f_why fs, pe_attacks = attacks_list\<rparr>]))"

definition parse_llm_events_canonical :: "pystr \<Rightarrow> pystr \<Rightarrow> parsed_event list" where
  "parse_llm_events_canonical text article_url =
     (if py_strip text = [] then []
      else
        (let headers = finditer_lines (\<lambda>s. case match_header s of
                                            None \<Rightarrow> None
                                          | Some (n, d, g) \<Rightarrow> Some (n, (d, g))) text
         in if headers = [] then []
            else
              concat (map (\<lambda>idx.
                        let start = fst (headers ! idx);
                            end' = (if idx + 1 < length headers then fst (headers ! (idx + 1))
                                    else length text);
                            block = py_strip (take (end' - start) (drop start text))
                        in parse_block block article_url (snd (headers ! idx)))
                      [0 ..< length headers])))"

text \<open>
  A canonical block, as the docstring of the parser lays it out: the header, an optional
  direct URL line, the four labeled lines and the attacks list, one per line.
\<close>

definition attacks_line_of :: "pystr list \<Rightarrow> pystr" where
  "attacks_line_of tokens = asc ''attacks: ['' @ join (asc '', '') tokens @ asc '']''"

definition canonical_lines ::
  "pystr \<Rightarrow> pystr \<Rightarrow> pystr option \<Rightarrow> pystr \<Rightarrow> pystr \<Rightarrow> pystr \<Rightarrow> pystr \<Rightarrow> pystr list
     \<Rightarrow> pystr list"
where
  "canonical_lines date_s title' direct_url summary' source' category' why' tokens =
     [date_s @ [32, EM_DASH, 32] @ title']
     @ (case direct_url of None \<Rightarrow> [] | Some u \<Rightarrow> [u])
     @ [asc ''Summary: '' @ summary',
        asc ''Source: '' @ source',
        asc ''Category: '' @ category',
        asc ''Why Relevant: '' @ why',
        attacks_line_of tokens]"

definition canonical_block ::
  "pystr \<Rightarrow> pystr \<Rightarrow> pystr option \<Rightarrow> pystr \<Rightarrow> pystr \<Rightarrow> pystr \<Rightarrow> pystr \<Rightarrow> pystr list
     \<Rightarrow> pystr"
where
  "canonical_block date_s title' direct_url summary' source' category' why' tokens =
     join [10] (canonical_lines date_s title' direct_url summary' source' category' why' tokens)"

text \<open>
  A field value that survives the parser unchanged: one line, without white space at
  either end.
\<close>

definition trimmed_line :: "pystr \<Rightarrow> bool" where
  "trimmed_line v =
     (list_all (\<lambda>c. \<not> is_linebreak c) v
      \<and> (v = [] \<or> (\<not> is_space (hd v) \<and> \<not> is_space (last v))))"

definition iso_date_text :: "pystr \<Rightarrow> bool" where
  "iso_date_text d = (match_date10 d = Some (d, []))"

definition direct_url_line :: "pystr \<Rightarrow> bool" where
  "direct_url_line u =
     (trimmed_line u \<and> (startswith u (asc ''http://'') \<or> startswith u (asc ''https://'')))"

definition attack_token :: "pystr \<Rightarrow> bool" where
  "attack_token t = (t \<noteq> [] \<and> trimmed_line t \<and> list_all (\<lambda>c. c \<noteq> 59 \<and> c \<noteq> 44) t)"

text \<open>A block whose first label is written in lower case, for the example below.\<close>

definition block_lower_label :: pystr where
  "block_lower_label =
     asc ''2025-01-21 '' @ [EM_DASH] @ asc '' Court blocks order'' @ [10]
     @ asc ''summary: A federal judge blocked the order.'' @ [10]
     @ asc ''Source: Democracy Docket https://example.org/a (news)'' @ [10]
     @ asc ''Category: Judicial Developments'' @ [10]
     @ asc ''Why Relevant: Courts check executive power.'' @ [10]
     @ asc ''ATTACKS: ['' @ [34] @ asc ''Courts'' @ [34] @ asc '', rule of law]''"

section \<open>Facts about the calendar\<close>

lemma days_before_month_2025_1: "days_before_month 2025 1 = 0"
  by (simp add: days_before_month_def)

lemma INAUGURATION_DAY_ord: "INAUGURATION_DAY = 739271"
  by (simp add: INAUGURATION_DAY_def ymd2ord_def days_before_year_def days_before_month_2025_1)

lemma FIRST_FRIDAY_ord: "FIRST_FRIDAY = 739275"
  by (simp add: FIRST_FRIDAY_def ymd2ord_def days_before_year_def days_before_month_2025_1)

lemma FIRST_SATURDAY_ord: "FIRST_SATURDAY = 739276"
  by (simp add: FIRST_SATURDAY_def ymd2ord_def days_before_year_def days_before_month_2025_1)

lemma ANCHOR_W1_START_ord: "ANCHOR_W1_START = 739271"
  by (simp add: ANCHOR_W1_START_def ymd2ord_def days_before_year_def days_before_month_2025_1)

lemma ANCHOR_W1_END_ord: "ANCHOR_W1_END = 739275"
  by (simp add: ANCHOR_W1_END_def ymd2ord_def days_before_year_def days_before_month_2025_1)

lemma ANCHOR_W2_START_ord: "ANCHOR_W2_START = 739276"
  by (simp add: ANCHOR_W2_START_def ymd2ord_def days_before_year_def days_before_month_2025_1)

lemmas anchor_ords =
  INAUGURATION_DAY_ord FIRST_FRIDAY_ord FIRST_SATURDAY_ord
  ANCHOR_W1_START_ord ANCHOR_W1_END_ord ANCHOR_W2_START_ord

lemma date_plus_days_ok:
  "- 999999999 \<le> n \<Longrightarrow> n \<le> 999999999 \<Longrightarrow> is_date (d + n) \<Longrightarrow> date_plus_days d n = Inr (d + n)"
  by (simp add: date_plus_days_def timedelta_def date_add_def)

lemma date_plus_days_Inr:
  "date_plus_days d n = Inr r \<longleftrightarrow> r = d + n \<and> is_date (d + n) \<and> - 999999999 \<le> n \<and> n \<le> 999999999"
  by (auto simp: date_plus_days_def timedelta_def date_add_def)

lemma is_date_iff: "is_date d \<longleftrightarrow> 1 \<le> d \<and> d \<le> 3652059"
  by (simp add: is_date_def date_min_def date_max_def)

lemma week_base_one: "week_base 1 = Inr (739271, 739275)"
  by (simp add: week_base_def anchor_ords)

lemma week_base_later:
  assumes "w \<noteq> 1"
  shows "week_base w =
     (if 1 \<le> 739276 + 7 * (w - 2) \<and> 739276 + 7 * (w - 2) + 6 \<le> 3652059
      then Inr (739276 + 7 * (w - 2), 739276 + 7 * (w - 2) + 6)
      else Inl (OverflowError (if - 999999999 \<le> (w - 2) * 7 \<and> (w - 2) * 7 \<le> 999999999
                 then ''date value out of range'' else ''days out of range for timedelta'')))"
  using assms
  by (auto simp: week_base_def anchor_ords date_plus_days_def timedelta_def date_add_def is_date_iff)

lemma weekday_anchor: "weekday (ymd2ord 2025 1 20) = 0" "weekday FIRST_SATURDAY = 5"
  using INAUGURATION_DAY_ord
  by (simp_all add: weekday_def INAUGURATION_DAY_def FIRST_SATURDAY_ord)

lemma weekday_plus7: "weekday (d + 7 * k) = weekday d"
proof -
  have "d + 7 * k + 6 = (d + 6) + 7 * k" by simp
  then show ?thesis
    unfolding weekday_def by (simp only: mod_mult_self2)
qed






lemma resolve_week_only:
  assumes "\<not> truthy_str start" "1 \<le> w" "\<not> (truthy_int weeks \<and> the weeks > 1)"
  shows "resolve_date_window start end' weeks (Some w) = week_base w"
  using assms by (auto simp: resolve_date_window_def split: sum.splits)

lemma resolve_week_weeks:
  assumes "\<not> truthy_str start" "1 \<le> w" "1 < m"
  shows "resolve_date_window start end' (Some m) (Some w) =
     (case week_base w of Inl e \<Rightarrow> Inl e
      | Inr (s, e) \<Rightarrow> (case date_plus_days e (7 * (m - 1)) of Inl x \<Rightarrow> Inl x | Inr e2 \<Rightarrow> Inr (s, e2)))"
  using assms by (auto simp: resolve_date_window_def split: sum.splits)

lemma week_base_Inr:
  "week_base w = Inr (s, e) \<Longrightarrow> 1 \<le> w \<Longrightarrow>
     s = (if w = 1 then 739271 else 739276 + 7 * (w - 2)) \<and>
     e = (if w = 1 then 739275 else 739276 + 7 * (w - 2) + 6) \<and> e \<le> 3652059"
  by (cases "w = 1") (auto simp: week_base_one week_base_later split: if_splits)

lemma week_base_ok:
  "1 \<le> w \<Longrightarrow> (if w = 1 then 739275 else 739276 + 7 * (w - 2) + 6) \<le> 3652059 \<Longrightarrow>
   week_base w = Inr (if w = 1 then 739271 else 739276 + 7 * (w - 2),
                      if w = 1 then 739275 else 739276 + 7 * (w - 2) + 6)"
  by (cases "w = 1") (auto simp: week_base_one week_base_later)



lemma date_plus_days_fwd:
  assumes "1 \<le> d" "0 \<le> n"
  shows "date_plus_days d n =
     (if d + n \<le> 3652059 then Inr (d + n)
      else Inl (OverflowError (if n \<le> 999999999
                 then ''date value out of range'' else ''days out of range for timedelta'')))"
  using assms
  by (auto simp: date_plus_days_def timedelta_def date_add_def is_date_iff)




subsection \<open>The week calendar of the resolver\<close>

text \<open>
  Claim C1 (as amended). \<open>resolve_date_window(week=1)\<close> is the inclusive window
  2025-01-20 (a Monday) to 2025-01-24, the anchor Monday plus four days. For a week number
  \<open>N \<ge> 2\<close> the start is \<open>FIRST_SATURDAY + 7 * (N - 2)\<close>, always a Saturday, and the end
  is six days later; a week count \<open>m \<ge> 1\<close> extends the end by \<open>7 * (m - 1)\<close> days, so
  that the window spans exactly \<open>7 * m\<close> days. All of this holds as long as the end of
  the window is no later than \<open>date.max\<close> (9999-12-31); past it the date arithmetic
  raises \<open>OverflowError\<close> and no window is returned.
\<close>

theorem resolve_week_calendar:
  assumes "2 \<le> N" and "1 \<le> m" and "s = FIRST_SATURDAY + 7 * (N - 2)"
  shows "resolve_date_window None None None (Some 1) = Inr (ymd2ord 2025 1 20, ymd2ord 2025 1 20 + 4)
    \<and> ymd2ord 2025 1 20 + 4 = ymd2ord 2025 1 24
    \<and> weekday (ymd2ord 2025 1 20) = 0
    \<and> FIRST_SATURDAY = ymd2ord 2025 1 25 \<and> weekday s = 5
    \<and> (s + 6 \<le> date_max \<longrightarrow>
          resolve_date_window None None None (Some N) = Inr (s, s + 6))
    \<and> (date_max < s + 6 \<longrightarrow>
          (\<exists>msg. resolve_date_window None None None (Some N) = Inl (OverflowError msg)))
    \<and> (s + 6 + 7 * (m - 1) \<le> date_max \<longrightarrow>
          resolve_date_window None None (Some m) (Some N) = Inr (s, s + 6 + 7 * (m - 1))
          \<and> (s + 6 + 7 * (m - 1)) - s + 1 = 7 * m)
    \<and> (date_max < s + 6 + 7 * (m - 1) \<longrightarrow>
          (\<exists>msg. resolve_date_window None None (Some m) (Some N) = Inl (OverflowError msg)))"
proof -
  have s: "s = 739276 + 7 * (N - 2)"
    using assms(3) by (simp add: FIRST_SATURDAY_ord)
  have N1: "N \<noteq> 1" "1 \<le> N"
    using assms(1) by simp_all
  have w1: "resolve_date_window None None None (Some 1) = Inr (ymd2ord 2025 1 20, ymd2ord 2025 1 20 + 4)"
    using resolve_week_only [of None 1 None None] INAUGURATION_DAY_ord
    by (simp add: week_base_one INAUGURATION_DAY_def)
  have fri: "ymd2ord 2025 1 20 + 4 = ymd2ord 2025 1 24"
    using INAUGURATION_DAY_ord FIRST_FRIDAY_ord
    by (simp add: INAUGURATION_DAY_def FIRST_FRIDAY_def)
  have sat: "weekday s = 5"
    using weekday_plus7 [of FIRST_SATURDAY "N - 2"] weekday_anchor(2) assms(3) by simp
  have only: "resolve_date_window None None None (Some N) = week_base N"
    using resolve_week_only [of None N None None] N1 by simp
  have a: "s + 6 \<le> date_max \<longrightarrow> resolve_date_window None None None (Some N) = Inr (s, s + 6)"
    using assms(1) by (simp add: only week_base_later [OF N1(1)] s date_max_def)
  have b: "date_max < s + 6 \<longrightarrow>
          (\<exists>msg. resolve_date_window None None None (Some N) = Inl (OverflowError msg))"
    using assms(1) by (simp add: only week_base_later [OF N1(1)] s date_max_def)
  have c: "s + 6 + 7 * (m - 1) \<le> date_max \<longrightarrow>
          resolve_date_window None None (Some m) (Some N) = Inr (s, s + 6 + 7 * (m - 1))"
  proof (cases "m = 1")
    case True
    then show ?thesis
      using resolve_week_only [of None N "Some m" None] N1 assms(1)
      by (simp add: week_base_later [OF N1(1)] s date_max_def)
  next
    case False
    then have "1 < m" using assms(2) by simp
    then show ?thesis
      using resolve_week_weeks [of None N m None] N1 assms(1)
      by (auto simp: week_base_later [OF N1(1)] s date_max_def date_plus_days_def
            timedelta_def date_add_def is_date_iff)
  qed
  have d: "date_max < s + 6 + 7 * (m - 1) \<longrightarrow>
          (\<exists>msg. resolve_date_window None None (Some m) (Some N) = Inl (OverflowError msg))"
  proof (cases "m = 1")
    case True
    then show ?thesis
      using resolve_week_only [of None N "Some m" None] N1 assms(1)
      by (simp add: week_base_later [OF N1(1)] s date_max_def)
  next
    case False
    then have "1 < m" using assms(2) by simp
    then show ?thesis
      using resolve_week_weeks [of None N m None] N1 assms(1)
      by (auto simp: week_base_later [OF N1(1)] s date_max_def date_plus_days_def
            timedelta_def date_add_def is_date_iff)
  qed
  show ?thesis
    using w1 fri weekday_anchor(1) sat a b c d by (simp add: FIRST_SATURDAY_def)
qed

text \<open>Week 3 alone, and week 3 with a week count of 2.\<close>

theorem resolve_week_calendar_witness:
  "(2::int) \<le> 3 \<and> (1::int) \<le> 2
   \<and> resolve_date_window None None None (Some 3) = Inr (ymd2ord 2025 2 1, ymd2ord 2025 2 7)
   \<and> resolve_date_window None None (Some 2) (Some 3) = Inr (ymd2ord 2025 2 1, ymd2ord 2025 2 14)"
proof -
  have o: "ymd2ord 2025 2 1 = 739283" "ymd2ord 2025 2 7 = 739289" "ymd2ord 2025 2 14 = 739296"
    by code_simp+
  show ?thesis
    using resolve_week_calendar [of 3 2 739283]
    by (simp add: FIRST_SATURDAY_ord o date_max_def)
qed

text \<open>
  Week 416113 ends on 9999-12-31; week 416114 would start the day after, and the
  resolver raises instead of returning a window.
\<close>

theorem resolve_week_out_of_range:
  "resolve_date_window None None None (Some 416114) = Inl (OverflowError ''date value out of range'')"
  by (simp add: resolve_date_window_def week_base_def anchor_ords date_plus_days_def
        timedelta_def date_add_def is_date_iff)

subsection \<open>When the resolver fails\<close>



lemma asc_Nil_iff [simp]: "(asc s = []) = (s = [])"
  by (simp add: asc_def)





lemma dc_week_for_first:
  assumes "739271 \<le> d" "d \<le> 739275"
  shows "dc_week_for d = Inr (Some (1, 739271, 739275))"
  using assms by (simp add: dc_week_for_def anchor_ords)

lemma dc_week_for_later:
  assumes "739276 + 7 * k \<le> d" "d \<le> 739276 + 7 * k + 6" "0 \<le> k" "739276 + 7 * k + 6 \<le> 3652059"
  shows "dc_week_for d = Inr (Some (2 + k, 739276 + 7 * k, 739276 + 7 * k + 6))"
proof -
  have dv: "(d - 739276) div 7 = k"
    using assms(1,2) by (intro div_pos_pos_trivial [THEN trans] int_div_pos_eq [where r = "d - 739276 - 7 * k"]) auto
  have gt: "\<not> d < 739271" "\<not> d \<le> 739275"
    using assms(1,3) by auto
  show ?thesis
    using gt assms(3,4)
    by (simp add: dc_week_for_def anchor_ords dv Let_def date_plus_days_fwd)
qed

lemma dc_week_for_total:
  assumes "is_date d"
  shows "\<exists>r. dc_week_for d = Inr r"
proof (cases "d \<le> 739275")
  case True
  then show ?thesis by (simp add: dc_week_for_def anchor_ords)
next
  case False
  define k where "k = (d - 739276) div 7"
  have k0: "0 \<le> k" using False by (simp add: k_def pos_imp_zdiv_nonneg_iff)
  have m: "0 \<le> (d - 739276) mod 7" "(d - 739276) mod 7 < 7"
    "d - 739276 = 7 * k + (d - 739276) mod 7"
    by (simp_all add: k_def)
  have lo: "739276 + 7 * k \<le> d" and hi: "d \<le> 739276 + 7 * k + 6"
    using m by linarith+
  have "d \<le> 3652059" using assms by (simp add: is_date_iff)
  then have "k \<le> 416111"
    using zdiv_mono1 [of "d - 739276" 2912783 7] by (simp add: k_def)
  then have "739276 + 7 * k + 6 \<le> 3652059" by simp
  then show ?thesis
    using dc_week_for_later [OF lo hi k0] by simp
qed


lemma dc_week_for_None: "(dc_week_for d = Inr None) = (d < 739271)"
  by (auto simp: dc_week_for_def anchor_ords Let_def split: sum.splits)

subsection \<open>The writer's week buckets agree with the resolver\<close>

text \<open>
  Claim C10. Whenever \<open>resolve_date_window(week=N)\<close> returns a window \<open>(s, e)\<close> and
  \<open>d\<close> lies in it, \<open>dc_week_for(d)\<close> returns \<open>(N, s, e)\<close> (and \<open>N \<ge> 1\<close>). Such a
  window exists for every week number from 1 to 416113, the last week of the calendar.
  \<open>dc_week_for\<close> returns \<open>None\<close> exactly for the dates before 2025-01-20, and it
  raises on no date.
\<close>

theorem dc_week_for_agrees:
  "(resolve_date_window None None None (Some N) = Inr (s, e) \<and> s \<le> d \<and> d \<le> e \<longrightarrow>
      1 \<le> N \<and> dc_week_for d = Inr (Some (N, s, e)))
   \<and> (1 \<le> N \<and> N \<le> 416113 \<longrightarrow>
        (\<exists>s e. resolve_date_window None None None (Some N) = Inr (s, e) \<and> s \<le> e))
   \<and> ((dc_week_for d' = Inr None) = (d' < ymd2ord 2025 1 20))
   \<and> (is_date d' \<longrightarrow> (\<exists>r. dc_week_for d' = Inr r))"
proof (intro conjI impI)
  assume h: "resolve_date_window None None None (Some N) = Inr (s, e) \<and> s \<le> d \<and> d \<le> e"
  then show N1: "1 \<le> N"
    by (auto simp: resolve_date_window_def split: if_splits)
  have wb: "week_base N = Inr (s, e)"
    using h resolve_week_only [of None N None None] N1 by simp
  note se = week_base_Inr [OF wb N1]
  show "dc_week_for d = Inr (Some (N, s, e))"
  proof (cases "N = 1")
    case True
    then show ?thesis using se h dc_week_for_first [of d] by simp
  next
    case False
    then have k: "0 \<le> N - 2" using N1 by simp
    show ?thesis
      using dc_week_for_later [of "N - 2" d, OF _ _ k] se h False by simp
  qed
next
  assume h: "1 \<le> N \<and> N \<le> 416113"
  then have "(if N = 1 then 739275 else 739276 + 7 * (N - 2) + 6) \<le> (3652059::int)"
    by simp
  from week_base_ok [OF _ this] h
  show "\<exists>s e. resolve_date_window None None None (Some N) = Inr (s, e) \<and> s \<le> e"
    using resolve_week_only [of None N None None] by (auto split: if_splits)
next
  show "(dc_week_for d' = Inr None) = (d' < ymd2ord 2025 1 20)"
    using dc_week_for_None [of d'] INAUGURATION_DAY_ord by (simp add: INAUGURATION_DAY_def)
next
  assume "is_date d'"
  then show "\<exists>r. dc_week_for d' = Inr r" by (rule dc_week_for_total)
qed

text \<open>Week 3 is 2025-02-01 to 2025-02-07; 2025-02-04 falls into it.\<close>

theorem dc_week_for_agrees_witness:
  "resolve_date_window None None None (Some 3) = Inr (739283, 739289)
   \<and> (739283::int) \<le> 739286 \<and> (739286::int) \<le> 739289
   \<and> dc_week_for 739286 = Inr (Some (3, 739283, 739289))
   \<and> dc_week_for (ymd2ord 2025 1 19) = Inr None
   \<and> is_date 739286"
proof -
  have r: "resolve_date_window None None None (Some 3) = Inr (739283, 739289)"
    by (simp add: resolve_date_window_def week_base_def anchor_ords date_plus_days_fwd)
  have o: "ymd2ord 2025 1 19 = 739270" "ymd2ord 2025 1 20 = 739271"
    by code_simp+
  show ?thesis
    using dc_week_for_agrees [where N = 3 and s = 739283 and e = 739289 and d = 739286
        and d' = "ymd2ord 2025 1 19"] r
    by (simp add: o is_date_iff)
qed

section \<open>Facts about the master merge\<close>



lemma index_of_Some: "index_of xs x = Some i \<Longrightarrow> i < length xs \<and> xs ! i = x"
  by (induction xs arbitrary: i) (auto split: option.splits if_splits)















subsection \<open>The order of the master log\<close>





section \<open>Facts about the window filter\<close>









subsection \<open>What the stats record holds\<close>













section \<open>Facts about the extraction orchestrator\<close>


lemma py_rstrip_Nil_iff: "py_rstrip s = [] \<longleftrightarrow> (\<forall>c \<in> set s. is_space c)"
  by (auto simp: py_rstrip_def dropWhile_eq_Nil_conv)

lemma py_strip_Nil_iff: "py_strip s = [] \<longleftrightarrow> (\<forall>c \<in> set s. is_space c)"
proof
  assume a: "py_strip s = []"
  then have all: "\<forall>c \<in> set (py_rstrip s). is_space c"
    by (simp add: py_strip_def py_lstrip_def dropWhile_eq_Nil_conv)
  show "\<forall>c \<in> set s. is_space c"
  proof (cases "py_rstrip s = []")
    case True
    then show ?thesis by (simp add: py_rstrip_Nil_iff)
  next
    case False
    then have ne: "dropWhile is_space (rev s) \<noteq> []" by (simp add: py_rstrip_def)
    have "\<not> is_space (hd (dropWhile is_space (rev s)))"
      using hd_dropWhile [OF ne] .
    moreover have "hd (dropWhile is_space (rev s)) \<in> set (py_rstrip s)"
      using ne by (simp add: py_rstrip_def)
    ultimately show ?thesis using all by blast
  qed
next
  assume "\<forall>c \<in> set s. is_space c"
  then have "py_rstrip s = []" by (simp add: py_rstrip_Nil_iff)
  then show "py_strip s = []" by (simp add: py_strip_def py_lstrip_def)
qed




lemma startswith_set: "startswith s p \<Longrightarrow> set p \<subseteq> set s"
  unfolding startswith_def by (metis set_take_subset)

lemma contains_set: "contains needle text \<Longrightarrow> set needle \<subseteq> set text"
proof (induction "text")
  case Nil
  then show ?case by simp
next
  case (Cons c cs)
  then show ?case
    using startswith_set [of "c # cs" needle] by auto
qed

lemma footer_not_blank:
  assumes "contains (asc ''[END OF LOG]'') text"
  shows "text \<noteq> []" "py_strip text \<noteq> []"
proof -
  have "91 \<in> set (asc ''[END OF LOG]'')" by (simp add: asc_def)
  then have m: "91 \<in> set text" using contains_set [OF assms] by blast
  then show "text \<noteq> []" by auto
  have "\<not> is_space 91" by (simp add: is_space_def)
  then show "py_strip text \<noteq> []"
    using m by (auto simp: py_strip_Nil_iff)
qed

subsection \<open>When a reply needs the schema retry\<close>

text \<open>
  Claim C4. \<open>_needs_schema_retry\<close> is true for every reply that is empty, blank, or
  lacks the marker \<open>[END OF LOG]\<close>; it is false for every reply that contains the marker
  and for which the compliance scan counts at least one category line, one why-relevant
  line and one attacks line. The scan's footer flag and its three counts are the
  substring test and the numbers of matches of \<open>^Category:\s*.+$\<close>,
  \<open>^Why Relevant:\s*.+$\<close> and \<open>^Attacks:\s*.+$\<close>.
\<close>

theorem needs_schema_retry_cases:
  "(text = [] \<or> py_strip text = [] \<or> \<not> contains (asc ''[END OF LOG]'') text
      \<longrightarrow> needs_schema_retry text)
   \<and> (contains (asc ''[END OF LOG]'') text
        \<and> 0 < count_category_lines (preparse_compliance_scan text)
        \<and> 0 < count_why_lines (preparse_compliance_scan text)
        \<and> 0 < count_attacks_lines (preparse_compliance_scan text)
      \<longrightarrow> \<not> needs_schema_retry text)
   \<and> has_footer_end_of_log (preparse_compliance_scan text) = contains (asc ''[END OF LOG]'') text
   \<and> count_category_lines (preparse_compliance_scan text) = count_label_lines (asc ''Category:'') text
   \<and> count_why_lines (preparse_compliance_scan text) = count_label_lines (asc ''Why Relevant:'') text
   \<and> count_attacks_lines (preparse_compliance_scan text) = count_label_lines (asc ''Attacks:'') text"
proof (intro conjI impI)
  assume "text = [] \<or> py_strip text = [] \<or> \<not> contains (asc ''[END OF LOG]'') text"
  then show "needs_schema_retry text"
    by (auto simp: needs_schema_retry_def preparse_compliance_scan_def Let_def)
next
  assume h: "contains (asc ''[END OF LOG]'') text
        \<and> 0 < count_category_lines (preparse_compliance_scan text)
        \<and> 0 < count_why_lines (preparse_compliance_scan text)
        \<and> 0 < count_attacks_lines (preparse_compliance_scan text)"
  then have ne: "text \<noteq> []" "py_strip text \<noteq> []"
    using footer_not_blank by blast+
  show "\<not> needs_schema_retry text"
    using h ne by (simp add: needs_schema_retry_def preparse_compliance_scan_def Let_def)
next
  show "has_footer_end_of_log (preparse_compliance_scan text) = contains (asc ''[END OF LOG]'') text"
    by (cases "text") (simp_all add: preparse_compliance_scan_def asc_def startswith_def)
  show "count_category_lines (preparse_compliance_scan text) = count_label_lines (asc ''Category:'') text"
    by (simp add: preparse_compliance_scan_def count_label_lines_def finditer_lines_def)
  show "count_why_lines (preparse_compliance_scan text) = count_label_lines (asc ''Why Relevant:'') text"
    by (simp add: preparse_compliance_scan_def count_label_lines_def finditer_lines_def)
  show "count_attacks_lines (preparse_compliance_scan text) = count_label_lines (asc ''Attacks:'') text"
    by (simp add: preparse_compliance_scan_def count_label_lines_def finditer_lines_def)
qed

lemmas scan_eval =
  count_label_lines_def finditer_lines_def match_label_line_def
  match_ws_rest_def startswith_def asc_def is_space_def Let_def EM_DASH_def

lemma reply_ok_scan:
  "count_label_lines (asc ''Category:'') reply_ok = 1"
  "count_label_lines (asc ''Why Relevant:'') reply_ok = 1"
  "count_label_lines (asc ''Attacks:'') reply_ok = 1"
  "contains (asc ''[END OF LOG]'') reply_ok"
  by (simp_all add: reply_ok_def reply_body_def scan_eval)

lemma reply_cut_scan: "\<not> contains (asc ''[END OF LOG]'') reply_cut"
  by (simp add: reply_cut_def reply_body_def scan_eval)

text \<open>The log cut before its footer, the empty reply, and the complete log.\<close>

theorem needs_schema_retry_cases_witness:
  "\<not> contains (asc ''[END OF LOG]'') reply_cut \<and> needs_schema_retry reply_cut
   \<and> needs_schema_retry []
   \<and> contains (asc ''[END OF LOG]'') reply_ok
   \<and> 0 < count_category_lines (preparse_compliance_scan reply_ok)
   \<and> 0 < count_why_lines (preparse_compliance_scan reply_ok)
   \<and> 0 < count_attacks_lines (preparse_compliance_scan reply_ok)
   \<and> \<not> needs_schema_retry reply_ok"
  using needs_schema_retry_cases [of reply_cut] needs_schema_retry_cases [of "[]"]
    needs_schema_retry_cases [of reply_ok]
  by (simp add: reply_ok_scan reply_cut_scan)

subsection \<open>At most one retry\<close>

















subsection \<open>Where failures of the remote services end up\<close>








end
